theory Spec2Isabelle
  imports Complex_Main
begin

section \<open>JavaScript numbers and values\<close>

text \<open>
  A JavaScript number is modelled as a real, one of the two infinities, or NaN.  Finite
  values are exact reals: the rounding of IEEE-754 doubles, the overflow of a finite
  result to an infinity and the sign of zero are not modelled.  The operations below
  follow ECMAScript for everything else (NaN propagation, infinities, comparisons with
  NaN being false).
\<close>

datatype jsnum = Fin real | PosInf | NegInf | NaN

fun js_neg :: "jsnum \<Rightarrow> jsnum" where
  "js_neg (Fin a) = Fin (- a)"
| "js_neg PosInf = NegInf"
| "js_neg NegInf = PosInf"
| "js_neg NaN = NaN"

fun js_add :: "jsnum \<Rightarrow> jsnum \<Rightarrow> jsnum" where
  "js_add NaN _ = NaN"
| "js_add _ NaN = NaN"
| "js_add (Fin a) (Fin b) = Fin (a + b)"
| "js_add PosInf NegInf = NaN"
| "js_add NegInf PosInf = NaN"
| "js_add PosInf _ = PosInf"
| "js_add _ PosInf = PosInf"
| "js_add NegInf _ = NegInf"
| "js_add _ NegInf = NegInf"

definition js_sub :: "jsnum \<Rightarrow> jsnum \<Rightarrow> jsnum" where
  "js_sub a b = js_add a (js_neg b)"

fun js_mul :: "jsnum \<Rightarrow> jsnum \<Rightarrow> jsnum" where
  "js_mul NaN _ = NaN"
| "js_mul _ NaN = NaN"
| "js_mul (Fin a) (Fin b) = Fin (a * b)"
| "js_mul PosInf (Fin b) = (if b = 0 then NaN else if 0 < b then PosInf else NegInf)"
| "js_mul NegInf (Fin b) = (if b = 0 then NaN else if 0 < b then NegInf else PosInf)"
| "js_mul (Fin a) PosInf = (if a = 0 then NaN else if 0 < a then PosInf else NegInf)"
| "js_mul (Fin a) NegInf = (if a = 0 then NaN else if 0 < a then NegInf else PosInf)"
| "js_mul PosInf PosInf = PosInf"
| "js_mul NegInf NegInf = PosInf"
| "js_mul PosInf NegInf = NegInf"
| "js_mul NegInf PosInf = NegInf"

fun js_div :: "jsnum \<Rightarrow> jsnum \<Rightarrow> jsnum" where
  "js_div NaN _ = NaN"
| "js_div _ NaN = NaN"
| "js_div (Fin a) (Fin b) =
     (if b = 0 then (if a = 0 then NaN else if 0 < a then PosInf else NegInf)
      else Fin (a / b))"
| "js_div (Fin a) _ = Fin 0"
| "js_div PosInf (Fin b) = (if 0 \<le> b then PosInf else NegInf)"
| "js_div NegInf (Fin b) = (if 0 \<le> b then NegInf else PosInf)"
| "js_div _ _ = NaN"

text \<open>The relational operators \<open><\<close>, \<open>>\<close>, \<open>>=\<close> and \<open>===\<close> on numbers.\<close>

fun js_lt :: "jsnum \<Rightarrow> jsnum \<Rightarrow> bool" where
  "js_lt NaN _ = False"
| "js_lt _ NaN = False"
| "js_lt (Fin a) (Fin b) = (a < b)"
| "js_lt _ NegInf = False"
| "js_lt NegInf _ = True"
| "js_lt PosInf _ = False"
| "js_lt _ PosInf = True"

fun js_eq :: "jsnum \<Rightarrow> jsnum \<Rightarrow> bool" where
  "js_eq NaN _ = False"
| "js_eq _ NaN = False"
| "js_eq a b = (a = b)"

definition js_gt :: "jsnum \<Rightarrow> jsnum \<Rightarrow> bool" where
  "js_gt a b = js_lt b a"

definition js_ge :: "jsnum \<Rightarrow> jsnum \<Rightarrow> bool" where
  "js_ge a b = (js_lt b a \<or> js_eq a b)"

text \<open>\<open>Math.max\<close>, \<open>Math.min\<close>, \<open>Math.floor\<close>, \<open>Math.ceil\<close>, \<open>Math.round\<close>
  (which rounds halves towards plus infinity) and \<open>Math.sqrt\<close>.\<close>

fun math_max :: "jsnum \<Rightarrow> jsnum \<Rightarrow> jsnum" where
  "math_max NaN _ = NaN"
| "math_max _ NaN = NaN"
| "math_max a b = (if js_lt a b then b else a)"

fun math_min :: "jsnum \<Rightarrow> jsnum \<Rightarrow> jsnum" where
  "math_min NaN _ = NaN"
| "math_min _ NaN = NaN"
| "math_min a b = (if js_lt b a then b else a)"

fun math_floor :: "jsnum \<Rightarrow> jsnum" where
  "math_floor (Fin a) = Fin (of_int \<lfloor>a\<rfloor>)"
| "math_floor x = x"

fun math_ceil :: "jsnum \<Rightarrow> jsnum" where
  "math_ceil (Fin a) = Fin (of_int \<lceil>a\<rceil>)"
| "math_ceil x = x"

fun math_round :: "jsnum \<Rightarrow> jsnum" where
  "math_round (Fin a) = Fin (of_int \<lfloor>a + 1 / 2\<rfloor>)"
| "math_round x = x"

fun math_sqrt :: "jsnum \<Rightarrow> jsnum" where
  "math_sqrt (Fin a) = (if a < 0 then NaN else Fin (sqrt a))"
| "math_sqrt PosInf = PosInf"
| "math_sqrt x = NaN"

text \<open>
  The values a numeric parameter can hold: a number, \<open>null\<close> or \<open>undefined\<close> (a
  missing argument).  \<open>truthy\<close> is ToBoolean, \<open>to_number\<close> is ToNumber and \<open>js_or\<close>
  is the operator \<open>||\<close>.
\<close>

datatype jsval = JNum jsnum | JNull | JUndefined

fun truthy :: "jsval \<Rightarrow> bool" where
  "truthy (JNum (Fin a)) = (a \<noteq> 0)"
| "truthy (JNum NaN) = False"
| "truthy (JNum _) = True"
| "truthy JNull = False"
| "truthy JUndefined = False"

fun to_number :: "jsval \<Rightarrow> jsnum" where
  "to_number (JNum n) = n"
| "to_number JNull = Fin 0"
| "to_number JUndefined = NaN"

definition js_or :: "jsval \<Rightarrow> jsval \<Rightarrow> jsval" where
  "js_or a b = (if truthy a then a else b)"

section \<open>Scoring and topic status (routes/quizRoutes.js)\<close>

definition calculateScore :: "jsnum \<Rightarrow> jsnum \<Rightarrow> jsnum" where
  "calculateScore correctCount totalQuestions =
     (if js_eq totalQuestions (Fin 0) then Fin 0
      else js_mul (js_div correctCount totalQuestions) (Fin 10))"

definition determineTopicStatus :: "jsnum \<Rightarrow> string" where
  "determineTopicStatus score = (if js_gt score (Fin 7) then ''Completed'' else ''Weak'')"

section \<open>Spaced-repetition scheduler (services/mlModelService.js)\<close>

text \<open>
  The service's state: \<open>modelLoaded\<close> is the flag of that name and \<open>model_truthy\<close>
  is the truthiness of \<open>this.model\<close> (\<open>null\<close> until a model file has been parsed).
\<close>

record MLModelService =
  model_truthy :: bool
  modelLoaded :: bool

definition predictWithModel :: "jsnum \<Rightarrow> jsnum \<Rightarrow> jsnum \<Rightarrow> jsnum \<Rightarrow> jsnum" where
  "predictWithModel latestScore avgScore attemptsCount daysSinceLastAttempt =
     (let prediction =
        (if js_ge latestScore (Fin 8) then
           math_min (Fin 30) (js_add (Fin 7) (js_mul attemptsCount (Fin 2)))
         else if js_ge latestScore (Fin 6) then
           math_min (Fin 14) (js_add (Fin 5) attemptsCount)
         else
           math_max (Fin 1)
             (js_sub (Fin 3) (math_floor (js_div (js_sub (Fin 6) latestScore) (Fin 2)))))
      in math_max (Fin 1) (math_round prediction))"

definition easeFactor :: "jsnum \<Rightarrow> jsnum \<Rightarrow> jsnum" where
  "easeFactor latestScore avgScore =
     (let performanceRatio = js_div (js_add latestScore avgScore) (Fin 20)
      in js_add (Fin (13 / 10)) (js_mul performanceRatio (Fin (12 / 10))))"

text \<open>
  \<open>predictWithFallback\<close> in its three steps: the base interval, the performance
  modifier, and the final bounds.
\<close>

definition fallbackBaseInterval :: "jsnum \<Rightarrow> jsnum \<Rightarrow> jsnum \<Rightarrow> jsnum \<Rightarrow> jsnum" where
  "fallbackBaseInterval latestScore avgScore attemptsCount daysSinceLastAttempt =
     (if js_eq attemptsCount (Fin 1) then
        (if js_ge latestScore (Fin 7) then Fin 3
         else if js_ge latestScore (Fin 5) then Fin 2 else Fin 1)
      else if js_eq attemptsCount (Fin 2) then
        (if js_ge latestScore (Fin 7) then Fin 7
         else if js_ge latestScore (Fin 5) then Fin 5 else Fin 3)
      else
        (let previousInterval = math_max daysSinceLastAttempt (Fin 1)
         in math_round (js_mul previousInterval (easeFactor latestScore avgScore))))"

definition fallbackModifier :: "jsnum \<Rightarrow> jsnum \<Rightarrow> jsnum" where
  "fallbackModifier latestScore interval =
     (if js_lt latestScore (Fin 5) then
        math_max (Fin 1) (math_floor (js_mul interval (Fin (5 / 10))))
      else if js_ge latestScore (Fin 9) then
        math_min (Fin 60) (math_ceil (js_mul interval (Fin (13 / 10))))
      else interval)"

definition predictWithFallback :: "jsnum \<Rightarrow> jsnum \<Rightarrow> jsnum \<Rightarrow> jsnum \<Rightarrow> jsnum" where
  "predictWithFallback latestScore avgScore attemptsCount daysSinceLastAttempt =
     (let interval =
            fallbackBaseInterval latestScore avgScore attemptsCount daysSinceLastAttempt;
          interval = fallbackModifier latestScore interval
      in math_max (Fin 1) (math_min (Fin 60) (math_round interval)))"

text \<open>The input validation at the head of \<open>predictNextReviewDays\<close>.\<close>

definition validScore :: "jsval \<Rightarrow> jsnum" where
  "validScore v = math_max (Fin 0) (math_min (Fin 10) (to_number (js_or v (JNum (Fin 0)))))"

definition validAttemptsCount :: "jsval \<Rightarrow> jsnum" where
  "validAttemptsCount v = math_max (Fin 1) (to_number (js_or v (JNum (Fin 1))))"

definition validDaysSince :: "jsval \<Rightarrow> jsnum" where
  "validDaysSince v = math_max (Fin 0) (to_number (js_or v (JNum (Fin 0))))"

definition predictNextReviewDays ::
  "MLModelService \<Rightarrow> jsval \<Rightarrow> jsval \<Rightarrow> jsval \<Rightarrow> jsval \<Rightarrow> jsnum" where
  "predictNextReviewDays this latestScore avgScore attemptsCount daysSinceLastAttempt =
     (let validLatestScore = validScore latestScore;
          validAvgScore = validScore avgScore;
          validAttempts = validAttemptsCount attemptsCount;
          validDays = validDaysSince daysSinceLastAttempt
      in if modelLoaded this \<and> model_truthy this then
           predictWithModel validLatestScore validAvgScore validAttempts validDays
         else
           predictWithFallback validLatestScore validAvgScore validAttempts validDays)"





section \<open>Topic clustering (services/pdfProcessor.js)\<close>

text \<open>
  Reading \<open>b[i]\<close> past the end of an array gives \<open>undefined\<close>, which arithmetic turns
  into NaN.
\<close>

definition num_at :: "jsnum list \<Rightarrow> nat \<Rightarrow> jsnum" where
  "num_at xs i = (if i < length xs then xs ! i else NaN)"

definition cosineSimilarity :: "jsnum list \<Rightarrow> jsnum list \<Rightarrow> jsnum" where
  "cosineSimilarity a b =
     (case fold (\<lambda>i (dotProduct, normA, normB).
                   (js_add dotProduct (js_mul (num_at a i) (num_at b i)),
                    js_add normA (js_mul (num_at a i) (num_at a i)),
                    js_add normB (js_mul (num_at b i) (num_at b i))))
                [0..<length a] (Fin 0, Fin 0, Fin 0)
      of (dotProduct, normA, normB) \<Rightarrow>
        js_div dotProduct (js_mul (math_sqrt normA) (math_sqrt normB)))"

text \<open>The innermost loop: every entry equal to \<open>oldCluster\<close> becomes \<open>newCluster\<close>.\<close>

definition relabel :: "nat \<Rightarrow> nat \<Rightarrow> nat list \<Rightarrow> nat list" where
  "relabel oldCluster newCluster clusters =
     map (\<lambda>c. if c = oldCluster then newCluster else c) clusters"

definition mergeStep :: "jsnum list list \<Rightarrow> jsnum \<Rightarrow> nat \<Rightarrow> nat \<Rightarrow> nat list \<Rightarrow> nat list" where
  "mergeStep embeddings threshold i j clusters =
     (let similarity = cosineSimilarity (embeddings ! i) (embeddings ! j)
      in if js_gt similarity threshold
         then relabel (clusters ! j) (clusters ! i) clusters
         else clusters)"

definition clusterEmbeddings :: "jsnum list list \<Rightarrow> jsnum \<Rightarrow> nat list" where
  "clusterEmbeddings embeddings threshold =
     (let n = length embeddings
      in fold (\<lambda>i. fold (mergeStep embeddings threshold i) [i + 1..<n]) [0..<n] [0..<n])"

definition js_le :: "jsnum \<Rightarrow> jsnum \<Rightarrow> bool" where
  "js_le a b = (js_lt a b \<or> js_eq a b)"

section \<open>Strings\<close>









section \<open>Topic titles (services/pdfProcessor.js)\<close>












section \<open>Conversation history and chat (services/llmService.js)\<close>

record history_entry =
  role :: string
  content :: string

datatype lc_message = HumanMessage string | AIMessage string | SystemMessage string

datatype llm_error = Error string

text \<open>
  The service's state is the map \<open>messageHistories\<close> from session identifiers to
  histories.  \<open>getMessageHistory\<close> creates an empty history for an unknown session and
  returns the history together with the updated state.
\<close>

type_synonym llm_state = "string \<rightharpoonup> history_entry list"

definition getMessageHistory :: "llm_state \<Rightarrow> string \<Rightarrow> history_entry list \<times> llm_state" where
  "getMessageHistory messageHistories sessionId =
     (case messageHistories sessionId of
        None \<Rightarrow> ([], messageHistories(sessionId \<mapsto> []))
      | Some history \<Rightarrow> (history, messageHistories))"

definition addToHistory :: "llm_state \<Rightarrow> string \<Rightarrow> string \<Rightarrow> string \<Rightarrow> llm_state" where
  "addToHistory messageHistories sessionId r c =
     (case getMessageHistory messageHistories sessionId of
        (history, st) \<Rightarrow> st(sessionId \<mapsto> history @ [\<lparr>role = r, content = c\<rparr>]))"

text \<open>\<open>xs.slice(-n)\<close> for a non-negative integer \<open>n\<close>: the last \<open>n\<close> elements, and the
  whole array when \<open>n\<close> is 0.\<close>

definition slice_last :: "nat \<Rightarrow> 'a list \<Rightarrow> 'a list" where
  "slice_last n xs = (if n = 0 then xs else drop (length xs - n) xs)"

definition to_lc_message :: "history_entry \<Rightarrow> lc_message" where
  "to_lc_message msg =
     (if role msg = ''user'' then HumanMessage (content msg)
      else if role msg = ''assistant'' then AIMessage (content msg)
      else if role msg = ''system'' then SystemMessage (content msg)
      else HumanMessage (content msg))"

text \<open>\<open>maxConversationHistory\<close> is the configuration constant of that name.\<close>

definition getRecentMessages ::
  "nat \<Rightarrow> llm_state \<Rightarrow> string \<Rightarrow> lc_message list \<times> llm_state" where
  "getRecentMessages maxConversationHistory messageHistories sessionId =
     (case getMessageHistory messageHistories sessionId of
        (history, st) \<Rightarrow> (map to_lc_message (slice_last maxConversationHistory history), st))"

text \<open>
  The messages sent to the providers in a chat turn.  The optional system prompt counts
  when it is a non-empty string.
\<close>

definition chatMessages ::
  "nat \<Rightarrow> llm_state \<Rightarrow> string \<Rightarrow> string \<Rightarrow> string option \<Rightarrow> lc_message list" where
  "chatMessages maxConversationHistory messageHistories message sessionId systemPrompt =
     (case systemPrompt of
        None \<Rightarrow> []
      | Some p \<Rightarrow> if p = [] then [] else [SystemMessage p])
     @ fst (getRecentMessages maxConversationHistory messageHistories sessionId)
     @ [HumanMessage message]"

text \<open>
  \<open>chat\<close>: the two providers are oracles from the message list to the response
  content, \<open>None\<close> when \<open>invoke\<close> throws.  The result is the error or the response,
  with the state after the call.
\<close>

definition chat ::
  "nat \<Rightarrow> (lc_message list \<Rightarrow> string option) \<Rightarrow> (lc_message list \<Rightarrow> string option)
     \<Rightarrow> llm_state \<Rightarrow> string \<Rightarrow> string \<Rightarrow> string option \<Rightarrow> (llm_error + string) \<times> llm_state" where
  "chat maxConversationHistory groq gemini messageHistories message sessionId systemPrompt =
     (let st = snd (getRecentMessages maxConversationHistory messageHistories sessionId);
          messages =
            chatMessages maxConversationHistory messageHistories message sessionId systemPrompt;
          answer =
            (case groq messages of
               Some responseContent \<Rightarrow> Inr responseContent
             | None \<Rightarrow>
                 (case gemini messages of
                    Some responseContent \<Rightarrow> Inr responseContent
                  | None \<Rightarrow>
                      Inl (Error
                        ''AI service temporarily unavailable. Please try again later.'')))
      in case answer of
           Inl e \<Rightarrow> (Inl e, st)
         | Inr responseContent \<Rightarrow>
             (Inr responseContent,
              addToHistory (addToHistory st sessionId ''user'' message)
                sessionId ''assistant'' responseContent))"

text \<open>The stored history of a session, as \<open>getMessageHistory\<close> reads it.\<close>

definition stored_history :: "llm_state \<Rightarrow> string \<Rightarrow> history_entry list" where
  "stored_history messageHistories sessionId =
     (case messageHistories sessionId of None \<Rightarrow> [] | Some history \<Rightarrow> history)"

section \<open>Regular expressions\<close>




















section \<open>Quiz generation (services/quizGenerator.js)\<close>




















text \<open>A row of the table \<open>quiz_questions\<close>.\<close>

record question_row =
  row_id :: string
  prompt :: string
  answer :: string
  answer_option_text :: "string list"
  row_explanation :: string





















section \<open>Content chunker\<close>





section \<open>Properties of scoring\<close>

text \<open>
  C4.  For every real score between 0 and 10, \<open>determineTopicStatus\<close> answers
  "Completed" exactly when the score is strictly above 7 and "Weak" otherwise (so 7
  itself is "Weak"), and the answer is always one of the two.
\<close>

theorem determineTopicStatus_threshold:
  assumes "0 \<le> s" and "s \<le> 10"
  shows "(determineTopicStatus (Fin s) = ''Completed'' \<longleftrightarrow> 7 < s)
       \<and> (determineTopicStatus (Fin s) = ''Weak'' \<longleftrightarrow> s \<le> 7)
       \<and> determineTopicStatus (Fin s) \<in> {''Completed'', ''Weak''}
       \<and> determineTopicStatus (Fin 7) = ''Weak''"
  by (auto simp: determineTopicStatus_def js_gt_def)

theorem determineTopicStatus_threshold_witness:
  "determineTopicStatus (Fin 7) = ''Weak''
   \<and> determineTopicStatus (Fin (701 / 100)) = ''Completed''
   \<and> determineTopicStatus (Fin 10) = ''Completed''
   \<and> determineTopicStatus (Fin 0) = ''Weak''"
  using determineTopicStatus_threshold [of 7]
        determineTopicStatus_threshold [of "701 / 100"]
        determineTopicStatus_threshold [of 10]
        determineTopicStatus_threshold [of 0]
  by simp

text \<open>
  C5.  For integers \<open>0 \<le> correctCount \<le> total\<close> with \<open>total \<ge> 1\<close> the score is
  \<open>(correctCount / total) * 10\<close>; in particular no correct answer scores 0 and all
  correct scores 10; and with \<open>total = 0\<close> the score is 0 whatever the first argument
  is (no division by zero happens).
\<close>

theorem calculateScore_formula:
  "(0 \<le> c \<and> c \<le> t \<and> 1 \<le> t \<longrightarrow>
      calculateScore (Fin (of_int c)) (Fin (of_int t)) = Fin (of_int c / of_int t * 10)
      \<and> calculateScore (Fin 0) (Fin (of_int t)) = Fin 0
      \<and> calculateScore (Fin (of_int t)) (Fin (of_int t)) = Fin 10)
   \<and> calculateScore x (Fin 0) = Fin 0"
  by (simp add: calculateScore_def)

theorem calculateScore_formula_witness:
  "calculateScore (Fin 8) (Fin 10) = Fin 8
   \<and> calculateScore (Fin 0) (Fin 10) = Fin 0
   \<and> calculateScore (Fin 10) (Fin 10) = Fin 10
   \<and> calculateScore NaN (Fin 0) = Fin 0"
  using calculateScore_formula [of 8 10 NaN] by simp

section \<open>Properties of the scheduler\<close>

lemma js_ge_Fin: "js_ge (Fin a) (Fin b) \<longleftrightarrow> b \<le> a"
  by (auto simp: js_ge_def)

lemma math_max_Fin: "math_max (Fin a) (Fin b) = Fin (max a b)"
  by (simp add: max_def)

lemma math_min_Fin: "math_min (Fin a) (Fin b) = Fin (min a b)"
  by (simp add: min_def)

lemma easeFactor_Fin:
  "easeFactor (Fin l) (Fin a) = Fin (13 / 10 + (l + a) / 20 * (12 / 10))"
  by (simp add: easeFactor_def)

lemma floor_of_int_add_half: "\<lfloor>(of_int i :: real) + 1 / 2\<rfloor> = i"
  by linarith

lemma math_round_of_int: "math_round (Fin (of_int i)) = Fin (of_int i)"
  by (simp add: floor_of_int_add_half)

lemma fallbackBaseInterval_Fin:
  "fallbackBaseInterval (Fin l) (Fin a) (Fin n) (Fin d) =
     Fin (of_int (if n = 1 then (if 7 \<le> l then 3 else if 5 \<le> l then 2 else 1)
                  else if n = 2 then (if 7 \<le> l then 7 else if 5 \<le> l then 5 else 3)
                  else round (max d 1 * (13 / 10 + (l + a) / 20 * (12 / 10)))))"
  by (simp add: fallbackBaseInterval_def js_ge_Fin math_max_Fin easeFactor_Fin round_def)

lemma max1_of_int: "math_max (Fin 1) (Fin (of_int r)) = Fin (of_int (max 1 r))"
  by (simp add: max_def)

lemma min60_of_int: "math_min (Fin 60) (Fin (of_int r)) = Fin (of_int (min 60 r))"
  by (simp add: min_def)

lemma fallbackModifier_Fin:
  "fallbackModifier (Fin l) (Fin (of_int b)) =
     Fin (of_int (if l < 5 then max 1 \<lfloor>(of_int b :: real) / 2\<rfloor>
                  else if 9 \<le> l then min 60 \<lceil>of_int b * (13 / 10 :: real)\<rceil>
                  else b))"
proof -
  consider "l < 5" | "\<not> l < 5" "9 \<le> l" | "\<not> l < 5" "\<not> 9 \<le> l" by blast
  then show ?thesis
  proof cases
    case 1
    have "fallbackModifier (Fin l) (Fin (of_int b))
          = math_max (Fin 1) (Fin (of_int \<lfloor>(of_int b :: real) * (5 / 10)\<rfloor>))"
      using 1 by (simp only: fallbackModifier_def js_lt.simps if_True js_mul.simps
          math_floor.simps)
    also have "\<dots> = Fin (of_int (max 1 \<lfloor>(of_int b :: real) * (5 / 10)\<rfloor>))"
      by (rule max1_of_int)
    also have "(of_int b :: real) * (5 / 10) = of_int b / 2" by simp
    finally show ?thesis using 1 by (simp only: if_True)
  next
    case 2
    have "fallbackModifier (Fin l) (Fin (of_int b))
          = math_min (Fin 60) (Fin (of_int \<lceil>(of_int b :: real) * (13 / 10)\<rceil>))"
      using 2 by (simp only: fallbackModifier_def js_lt.simps js_ge_Fin if_True if_False
          js_mul.simps math_ceil.simps)
    also have "\<dots> = Fin (of_int (min 60 \<lceil>(of_int b :: real) * (13 / 10)\<rceil>))"
      by (rule min60_of_int)
    finally show ?thesis using 2 by (simp only: if_True if_False)
  next
    case 3
    then show ?thesis
      by (simp only: fallbackModifier_def js_lt.simps js_ge_Fin if_False)
  qed
qed

lemma clamp_of_int:
  "math_max (Fin 1) (math_min (Fin 60) (Fin (of_int r))) = Fin (of_int (max 1 (min 60 r)))"
  by (simp add: max_def min_def)

lemma predictWithFallback_Fin:
  "predictWithFallback (Fin l) (Fin a) (Fin n) (Fin d) =
     Fin (of_int (max 1 (min 60
       (let b = (if n = 1 then (if 7 \<le> l then 3 else if 5 \<le> l then 2 else 1)
                 else if n = 2 then (if 7 \<le> l then 7 else if 5 \<le> l then 5 else 3)
                 else round (max d 1 * (13 / 10 + (l + a) / 20 * (12 / 10))))
        in if l < 5 then max 1 \<lfloor>(of_int b :: real) / 2\<rfloor>
           else if 9 \<le> l then min 60 \<lceil>of_int b * (13 / 10 :: real)\<rceil>
           else b))))"
  unfolding predictWithFallback_def Let_def fallbackBaseInterval_Fin fallbackModifier_Fin
    math_round_of_int clamp_of_int ..



lemma validScore_Fin: "validScore (JNum (Fin x)) = Fin (max 0 (min 10 x))"
  by (simp add: validScore_def js_or_def max_def min_def)

lemma validAttemptsCount_Fin: "validAttemptsCount (JNum (Fin x)) = Fin (max 1 x)"
  by (simp add: validAttemptsCount_def js_or_def max_def)

lemma validDaysSince_Fin: "validDaysSince (JNum (Fin x)) = Fin (max 0 x)"
  by (simp add: validDaysSince_def js_or_def max_def)

























lemma fallback_low_le_high:
  assumes "0 \<le> d"
  shows "\<exists>lo hi :: int.
           predictWithFallback (Fin 3) (Fin 3) (Fin n) (Fin d) = Fin (of_int lo)
         \<and> predictWithFallback (Fin 9) (Fin 9) (Fin n) (Fin d) = Fin (of_int hi)
         \<and> lo \<le> hi"
proof -
  define b3 :: int where "b3 = (if n = 1 then 1 else if n = 2 then 3
      else round (max d 1 * (13 / 10 + (3 + 3) / 20 * (12 / 10))))"
  define b9 :: int where "b9 = (if n = 1 then 3 else if n = 2 then 7
      else round (max d 1 * (13 / 10 + (9 + 9) / 20 * (12 / 10))))"
  have lo: "predictWithFallback (Fin 3) (Fin 3) (Fin n) (Fin d)
            = Fin (of_int (max 1 (min 60 (max 1 \<lfloor>(of_int b3 :: real) / 2\<rfloor>))))"
    unfolding predictWithFallback_Fin b3_def by simp
  have hi: "predictWithFallback (Fin 9) (Fin 9) (Fin n) (Fin d)
            = Fin (of_int (max 1 (min 60 (min 60 \<lceil>of_int b9 * (13 / 10 :: real)\<rceil>))))"
    unfolding predictWithFallback_Fin b9_def by simp
  have "max d 1 * (13 / 10 + (3 + 3) / 20 * (12 / 10)) \<le> max d 1 * (13 / 10 + (9 + 9) / 20 * (12 / 10))"
    by (intro mult_left_mono) simp_all
  then have r: "round (max d 1 * (13 / 10 + (3 + 3) / 20 * (12 / 10)))
             \<le> round (max d 1 * (13 / 10 + (9 + 9) / 20 * (12 / 10)))"
    by (rule round_mono)
  have "0 \<le> max d 1 * (13 / 10 + (3 + 3) / 20 * (12 / 10))" by simp
  then have "round (0::real) \<le> round (max d 1 * (13 / 10 + (3 + 3) / 20 * (12 / 10)))"
    by (rule round_mono)
  then have b3_nonneg: "0 \<le> b3" unfolding b3_def by simp
  have b39: "b3 \<le> b9" unfolding b3_def b9_def using r by simp
  have "\<lfloor>(of_int b3 :: real) / 2\<rfloor> \<le> b3" using b3_nonneg by linarith
  moreover have "b9 \<le> \<lceil>of_int b9 * (13 / 10 :: real)\<rceil>"
  proof -
    have "(of_int b9 :: real) \<le> of_int b9 * (13 / 10)" using b3_nonneg b39 by simp
    then show ?thesis by linarith
  qed
  ultimately have "\<lfloor>(of_int b3 :: real) / 2\<rfloor> \<le> \<lceil>of_int b9 * (13 / 10 :: real)\<rceil>"
    using b39 by linarith
  then have "max 1 (min 60 (max 1 \<lfloor>(of_int b3 :: real) / 2\<rfloor>))
           \<le> max 1 (min 60 (min 60 \<lceil>of_int b9 * (13 / 10 :: real)\<rceil>))"
    by linarith
  then show ?thesis using lo hi by blast
qed

lemma model_low_le_high:
  assumes "1 \<le> n"
  shows "\<exists>lo hi :: int.
           predictWithModel (Fin 3) (Fin 3) (Fin n) (Fin d) = Fin (of_int lo)
         \<and> predictWithModel (Fin 9) (Fin 9) (Fin n) (Fin d) = Fin (of_int hi)
         \<and> lo \<le> hi"
proof -
  have lo: "predictWithModel (Fin 3) (Fin 3) (Fin n) (Fin d) = Fin (of_int 2)"
    by (simp add: predictWithModel_def js_ge_Fin js_sub_def)
  let ?p = "min 30 (7 + n * 2)"
  have "predictWithModel (Fin 9) (Fin 9) (Fin n) (Fin d)
        = math_max (Fin 1) (math_round (Fin ?p))"
    by (simp add: predictWithModel_def js_ge_Fin math_min_Fin del: math_min.simps math_max.simps math_round.simps)
  then have hi: "predictWithModel (Fin 9) (Fin 9) (Fin n) (Fin d)
        = Fin (of_int (max 1 \<lfloor>?p + 1 / 2\<rfloor>))"
    unfolding math_round.simps max1_of_int .
  have "9 \<le> ?p" using assms by simp
  then have "2 \<le> \<lfloor>?p + 1 / 2\<rfloor>" by linarith
  then have "2 \<le> max 1 \<lfloor>?p + 1 / 2\<rfloor>" by simp
  then show ?thesis using lo hi by blast
qed

lemma predictNextReviewDays_model:
  assumes "modelLoaded this \<and> model_truthy this"
  shows "predictNextReviewDays this a b c d =
         predictWithModel (validScore a) (validScore b) (validAttemptsCount c) (validDaysSince d)"
  using assms by (simp add: predictNextReviewDays_def)

lemma predictNextReviewDays_fallback:
  assumes "\<not> (modelLoaded this \<and> model_truthy this)"
  shows "predictNextReviewDays this a b c d =
         predictWithFallback (validScore a) (validScore b) (validAttemptsCount c)
           (validDaysSince d)"
  using assms by (auto simp: predictNextReviewDays_def)

text \<open>
  C9.  With the attempt count (at least 1) and the days since the last attempt (at least
  0) held fixed, the prediction for scores (9, 9) is never below the prediction for
  scores (3, 3), whether the model path or the fallback path is taken.
\<close>

theorem higher_scores_not_sooner:
  assumes "1 \<le> n" and "0 \<le> d"
  shows "\<exists>lo hi :: int.
           predictNextReviewDays this (JNum (Fin 3)) (JNum (Fin 3)) (JNum (Fin n)) (JNum (Fin d))
             = Fin (of_int lo)
         \<and> predictNextReviewDays this (JNum (Fin 9)) (JNum (Fin 9)) (JNum (Fin n)) (JNum (Fin d))
             = Fin (of_int hi)
         \<and> lo \<le> hi"
proof -
  have v: "validScore (JNum (Fin 3)) = Fin 3" "validScore (JNum (Fin 9)) = Fin 9"
    "validAttemptsCount (JNum (Fin n)) = Fin n" "validDaysSince (JNum (Fin d)) = Fin d"
    using assms by (simp_all add: validScore_Fin validAttemptsCount_Fin validDaysSince_Fin)
  show ?thesis
  proof (cases "modelLoaded this \<and> model_truthy this")
    case True
    show ?thesis
      unfolding predictNextReviewDays_model[OF True] v
      by (rule model_low_le_high[OF assms(1)])
  next
    case False
    show ?thesis
      unfolding predictNextReviewDays_fallback[OF False] v
      by (rule fallback_low_le_high[OF assms(2)])
  qed
qed

theorem higher_scores_not_sooner_witness:
  "predictNextReviewDays \<lparr>model_truthy = False, modelLoaded = False\<rparr>
       (JNum (Fin 3)) (JNum (Fin 3)) (JNum (Fin 3)) (JNum (Fin 10)) = Fin 8
   \<and> predictNextReviewDays \<lparr>model_truthy = False, modelLoaded = False\<rparr>
       (JNum (Fin 9)) (JNum (Fin 9)) (JNum (Fin 3)) (JNum (Fin 10)) = Fin 32"
  using higher_scores_not_sooner
    [of 3 10 "\<lparr>model_truthy = False, modelLoaded = False\<rparr>"]
  by (simp add: predictNextReviewDays_def validScore_def validAttemptsCount_def
      validDaysSince_def js_or_def predictWithFallback_def fallbackBaseInterval_def
      fallbackModifier_def easeFactor_def js_ge_def)

section \<open>Properties of the clustering\<close>

lemma relabel_same: "relabel c c cl = cl"
  by (simp add: relabel_def map_idI)

lemma relabel_prefix:
  assumes "1 \<le> m" "m < n"
  shows "relabel m 0 (replicate m 0 @ [m..<n]) = replicate (Suc m) 0 @ [Suc m..<n]"
proof -
  have "[m..<n] = m # [Suc m..<n]" using assms by (simp add: upt_conv_Cons)
  moreover have "map (\<lambda>c. if c = m then 0 else c) [Suc m..<n] = [Suc m..<n]"
    by (rule map_idI) auto
  ultimately show ?thesis
    using assms by (simp add: relabel_def replicate_append_same)
qed

lemma first_row_merges:
  assumes all: "\<And>j. 0 < j \<Longrightarrow> j < n \<Longrightarrow> js_gt (cosineSimilarity (e ! 0) (e ! j)) t"
    and "1 \<le> m" "m \<le> n"
  shows "fold (mergeStep e t 0) [1..<m] [0..<n] = replicate m 0 @ [m..<n]"
  using assms(2,3)
proof (induction m)
  case 0
  then show ?case by simp
next
  case (Suc m)
  show ?case
  proof (cases "m = 0")
    case True
    with Suc.prems have "[0..<n] = 0 # [1..<n]" by (simp add: upt_conv_Cons)
    with True show ?thesis by simp
  next
    case False
    then have m: "1 \<le> m" "m < n" "m \<le> n" using Suc.prems by simp_all
    have ih: "fold (mergeStep e t 0) [1..<m] [0..<n] = replicate m 0 @ [m..<n]"
      using Suc.IH m by simp
    have nth_m: "(replicate m 0 @ [m..<n]) ! m = m" using m by (simp add: nth_append)
    have nth_0: "(replicate m 0 @ [m..<n]) ! 0 = 0" using m by (simp add: nth_append)
    have gt: "js_gt (cosineSimilarity (e ! 0) (e ! m)) t" using all m by simp
    have "fold (mergeStep e t 0) [1..<Suc m] [0..<n]
          = mergeStep e t 0 m (replicate m 0 @ [m..<n])"
      using m ih by simp
    also have "\<dots> = relabel m 0 (replicate m 0 @ [m..<n])"
      using gt by (simp add: mergeStep_def nth_m nth_0)
    also have "\<dots> = replicate (Suc m) 0 @ [Suc m..<n]"
      using relabel_prefix m by simp
    finally show ?thesis .
  qed
qed

lemma merged_row_stays:
  assumes "i < n" "\<forall>j\<in>set js. j < n"
  shows "fold (mergeStep e t i) js (replicate n 0) = replicate n 0"
  using assms(2)
proof (induction js)
  case Nil
  then show ?case by simp
next
  case (Cons j js)
  have "mergeStep e t i j (replicate n 0) = replicate n 0"
    using assms(1) Cons.prems by (simp add: mergeStep_def Let_def relabel_same)
  then show ?case using Cons by simp
qed

lemma merged_rows_stay:
  assumes "\<forall>i\<in>set is. i < n"
  shows "fold (\<lambda>i. fold (mergeStep e t i) [i + 1..<n]) is (replicate n 0) = replicate n 0"
  using assms
proof (induction "is")
  case Nil
  then show ?case by simp
next
  case (Cons i "is")
  have "fold (mergeStep e t i) [i + 1..<n] (replicate n 0) = replicate n 0"
    using Cons.prems by (intro merged_row_stays) simp_all
  then show ?case using Cons by simp
qed

lemma all_similar_one_cluster:
  assumes "\<And>i j. i < j \<Longrightarrow> j < length e \<Longrightarrow> js_gt (cosineSimilarity (e ! i) (e ! j)) t"
  shows "clusterEmbeddings e t = replicate (length e) 0"
proof (cases "length e = 0")
  case True
  then show ?thesis by (simp add: clusterEmbeddings_def Let_def)
next
  case False
  define n where "n = length e"
  have n: "1 \<le> n" using False n_def by (cases e) simp_all
  have up: "[0..<n] = 0 # [1..<n]" using n by (simp add: upt_conv_Cons)
  have row0: "fold (mergeStep e t 0) [1..<n] [0..<n] = replicate n 0"
    using first_row_merges[of n e t n] assms n unfolding n_def by simp
  have "clusterEmbeddings e t
        = fold (\<lambda>i. fold (mergeStep e t i) [i + 1..<n]) [0..<n] [0..<n]"
    by (simp add: clusterEmbeddings_def n_def Let_def)
  also have "\<dots> = fold (\<lambda>i. fold (mergeStep e t i) [i + 1..<n]) [1..<n]
                      (fold (mergeStep e t 0) [1..<n] [0..<n])"
    by (subst up) simp
  also have "\<dots> = replicate n 0"
    unfolding row0 by (rule merged_rows_stay) simp
  finally show ?thesis unfolding n_def .
qed

lemma none_similar_singletons:
  assumes "\<And>i j. i < j \<Longrightarrow> j < length e \<Longrightarrow> \<not> js_gt (cosineSimilarity (e ! i) (e ! j)) t"
  shows "clusterEmbeddings e t = [0..<length e]"
proof -
  define n where "n = length e"
  have inner: "fold (mergeStep e t i) [i + 1..<n] = id" for i
  proof (rule fold_id)
    fix j assume "j \<in> set [i + 1..<n]"
    then have "i < j" "j < length e" by (simp_all add: n_def)
    then show "mergeStep e t i j = id"
      using assms by (auto simp: mergeStep_def)
  qed
  have "fold (\<lambda>i. fold (mergeStep e t i) [i + 1..<n]) [0..<n] = id"
    by (rule fold_id) (rule inner)
  then show ?thesis by (simp add: clusterEmbeddings_def n_def Let_def)
qed

lemma js_le_not_gt: "js_le a b \<Longrightarrow> \<not> js_gt a b"
  by (cases a; cases b) (auto simp: js_le_def js_gt_def)

lemma cos_same: "cosineSimilarity [Fin 1, Fin 0] [Fin 1, Fin 0] = Fin 1"
  by (simp add: cosineSimilarity_def num_at_def upt_conv_Cons)

lemma cos_orth: "cosineSimilarity [Fin 1, Fin 0] [Fin 0, Fin 1] = Fin 0"
  by (simp add: cosineSimilarity_def num_at_def upt_conv_Cons)

text \<open>
  C6.  For any list of embedding vectors and any threshold: when the similarity test
  \<open>cosine > threshold\<close> succeeds for every pair, all items receive the same label (the
  label 0 of the first item), so there is exactly one cluster; when every pairwise
  cosine similarity is at most the threshold, item \<open>k\<close> keeps its own label \<open>k\<close>, so
  there are as many singleton clusters as items.
\<close>

theorem clusterEmbeddings_extremes:
  "((\<forall>i j. i < j \<and> j < length e \<longrightarrow> js_gt (cosineSimilarity (e ! i) (e ! j)) t)
      \<longrightarrow> clusterEmbeddings e t = replicate (length e) 0)
   \<and> ((\<forall>i j. i < j \<and> j < length e \<longrightarrow> js_le (cosineSimilarity (e ! i) (e ! j)) t)
      \<longrightarrow> clusterEmbeddings e t = [0..<length e] \<and> distinct (clusterEmbeddings e t))"
proof (intro conjI impI)
  assume "\<forall>i j. i < j \<and> j < length e \<longrightarrow> js_gt (cosineSimilarity (e ! i) (e ! j)) t"
  then show "clusterEmbeddings e t = replicate (length e) 0"
    by (intro all_similar_one_cluster) simp
next
  assume le: "\<forall>i j. i < j \<and> j < length e \<longrightarrow> js_le (cosineSimilarity (e ! i) (e ! j)) t"
  then show eq: "clusterEmbeddings e t = [0..<length e]"
    by (intro none_similar_singletons js_le_not_gt) simp
  show "distinct (clusterEmbeddings e t)" unfolding eq by simp
qed

theorem clusterEmbeddings_extremes_witness:
  "clusterEmbeddings [[Fin 1, Fin 0], [Fin 1, Fin 0]] (Fin (1 / 2)) = [0, 0]
   \<and> clusterEmbeddings [[Fin 1, Fin 0], [Fin 0, Fin 1]] (Fin (1 / 2)) = [0, 1]"
proof -
  have same: "\<forall>i j. i < j \<and> j < length [[Fin 1, Fin 0], [Fin 1, Fin 0]] \<longrightarrow>
      js_gt (cosineSimilarity ([[Fin 1, Fin 0], [Fin 1, Fin 0]] ! i)
               ([[Fin 1, Fin 0], [Fin 1, Fin 0]] ! j)) (Fin (1 / 2))"
    by (auto simp: less_Suc_eq cos_same js_gt_def)
  have orth: "\<forall>i j. i < j \<and> j < length [[Fin 1, Fin 0], [Fin 0, Fin 1]] \<longrightarrow>
      js_le (cosineSimilarity ([[Fin 1, Fin 0], [Fin 0, Fin 1]] ! i)
               ([[Fin 1, Fin 0], [Fin 0, Fin 1]] ! j)) (Fin (1 / 2))"
    by (auto simp: less_Suc_eq cos_orth js_le_def)
  show ?thesis
    using same orth
      clusterEmbeddings_extremes [of "[[Fin 1, Fin 0], [Fin 1, Fin 0]]" "Fin (1 / 2)"]
      clusterEmbeddings_extremes [of "[[Fin 1, Fin 0], [Fin 0, Fin 1]]" "Fin (1 / 2)"]
    by (simp add: upt_conv_Cons numeral_2_eq_2)
qed

section \<open>Properties of the topic titles\<close>







section \<open>Properties of the chat history\<close>

lemma stored_history_getMessageHistory:
  "stored_history (snd (getMessageHistory st sid)) other = stored_history st other"
  by (auto simp: stored_history_def getMessageHistory_def split: option.splits)

lemma stored_history_getRecentMessages:
  "stored_history (snd (getRecentMessages n st sid)) other = stored_history st other"
  using stored_history_getMessageHistory[of st sid other]
  by (auto simp: getRecentMessages_def split: prod.splits)

lemma stored_history_addToHistory:
  "stored_history (addToHistory st sid r c) other =
     (if other = sid then stored_history st sid @ [\<lparr>role = r, content = c\<rparr>]
      else stored_history st other)"
  by (auto simp: stored_history_def addToHistory_def getMessageHistory_def split: option.splits)

text \<open>
  C10.  When both providers fail on the messages of a chat turn, \<open>chat\<close> raises the
  service-unavailable error and the stored history of every session reads as before (an
  unknown session has merely been given an empty history).  The user message and the
  response are appended, in this order, only when a provider has answered.
\<close>

theorem chat_history_on_failure:
  "(groq (chatMessages n st message sid sys) = None
      \<and> gemini (chatMessages n st message sid sys) = None \<longrightarrow>
      fst (chat n groq gemini st message sid sys)
        = Inl (Error ''AI service temporarily unavailable. Please try again later.'')
      \<and> (\<forall>other. stored_history (snd (chat n groq gemini st message sid sys)) other
                   = stored_history st other))
   \<and> (fst (chat n groq gemini st message sid sys) = Inr response \<longrightarrow>
      (groq (chatMessages n st message sid sys) = Some response
         \<or> gemini (chatMessages n st message sid sys) = Some response)
      \<and> stored_history (snd (chat n groq gemini st message sid sys)) sid
          = stored_history st sid
            @ [\<lparr>role = ''user'', content = message\<rparr>,
               \<lparr>role = ''assistant'', content = response\<rparr>])"
proof (intro conjI impI allI)
  fix other
  assume fail: "groq (chatMessages n st message sid sys) = None
      \<and> gemini (chatMessages n st message sid sys) = None"
  then have c: "chat n groq gemini st message sid sys
      = (Inl (Error ''AI service temporarily unavailable. Please try again later.''),
         snd (getRecentMessages n st sid))"
    by (simp add: chat_def Let_def)
  show "fst (chat n groq gemini st message sid sys)
        = Inl (Error ''AI service temporarily unavailable. Please try again later.'')"
    unfolding c by simp
  show "stored_history (snd (chat n groq gemini st message sid sys)) other
        = stored_history st other"
    unfolding c by (simp add: stored_history_getRecentMessages)
next
  assume ok: "fst (chat n groq gemini st message sid sys) = Inr response"
  then show "groq (chatMessages n st message sid sys) = Some response
         \<or> gemini (chatMessages n st message sid sys) = Some response"
    by (auto simp: chat_def Let_def split: option.splits)
  from ok have "snd (chat n groq gemini st message sid sys)
      = addToHistory (addToHistory (snd (getRecentMessages n st sid)) sid ''user'' message)
          sid ''assistant'' response"
    by (auto simp: chat_def Let_def split: option.splits)
  then show "stored_history (snd (chat n groq gemini st message sid sys)) sid
          = stored_history st sid
            @ [\<lparr>role = ''user'', content = message\<rparr>,
               \<lparr>role = ''assistant'', content = response\<rparr>]"
    by (simp add: stored_history_addToHistory stored_history_getRecentMessages)
qed

theorem chat_history_on_failure_witness:
  "fst (chat 10 (\<lambda>m. None) (\<lambda>m. None)
          [''s1'' \<mapsto> [\<lparr>role = ''user'', content = ''hi''\<rparr>]] ''hello'' ''s1'' None)
     = Inl (Error ''AI service temporarily unavailable. Please try again later.'')
   \<and> stored_history (snd (chat 10 (\<lambda>m. None) (\<lambda>m. None)
          [''s1'' \<mapsto> [\<lparr>role = ''user'', content = ''hi''\<rparr>]] ''hello'' ''s1'' None)) ''s1''
     = [\<lparr>role = ''user'', content = ''hi''\<rparr>]
   \<and> stored_history (snd (chat 10 (\<lambda>m. None) (\<lambda>m. Some ''answer'')
          [''s1'' \<mapsto> [\<lparr>role = ''user'', content = ''hi''\<rparr>]] ''hello'' ''s1'' None)) ''s1''
     = [\<lparr>role = ''user'', content = ''hi''\<rparr>, \<lparr>role = ''user'', content = ''hello''\<rparr>,
        \<lparr>role = ''assistant'', content = ''answer''\<rparr>]"
proof -
  have ok: "fst (chat 10 (\<lambda>m. None) (\<lambda>m. Some ''answer'')
          [''s1'' \<mapsto> [\<lparr>role = ''user'', content = ''hi''\<rparr>]] ''hello'' ''s1'' None)
        = Inr ''answer''"
    by (simp add: chat_def Let_def)
  have h: "stored_history [''s1'' \<mapsto> [\<lparr>role = ''user'', content = ''hi''\<rparr>]] ''s1''
        = [\<lparr>role = ''user'', content = ''hi''\<rparr>]"
    by (simp add: stored_history_def)
  show ?thesis
    using ok h
      chat_history_on_failure [of "\<lambda>m. None" 10
        "[''s1'' \<mapsto> [\<lparr>role = ''user'', content = ''hi''\<rparr>]]" "''hello''" "''s1''" None
        "\<lambda>m. None" "''x''"]
      chat_history_on_failure [of "\<lambda>m. None" 10
        "[''s1'' \<mapsto> [\<lparr>role = ''user'', content = ''hi''\<rparr>]]" "''hello''" "''s1''" None
        "\<lambda>m. Some ''answer''" "''answer''"]
    by simp
qed

section \<open>Properties of the regular expressions\<close>


















section \<open>Properties of quiz generation\<close>




















section \<open>Properties of the content chunker\<close>






end
